theory Spec2Isabelle
  imports Main
begin

section \<open>Data model (origyn/models.py)\<close>

text \<open>
  \<open>OEMOutput\<close> is the pydantic model with the two required string fields.
  \<open>OEMResult\<close> is the model returned to callers; its five fields are declared \<open>str\<close>.
\<close>

record OEMOutput =
  oem :: string
  part_category :: string

record OEMResult =
  original_query :: string
  oem :: string
  part_category :: string
  unspsc_code :: string
  unspsc_family :: string

text \<open>
  What a dict holds under a key: nothing (the key is missing) or a Python value. The
  values are the ones a Record or the metadata of the vector index can carry: \<open>None\<close>, a
  string, an integer, a float (mantissa and binary exponent) or a boolean. Nothing converts
  a value on its way from the index to the Result, so the kinds are kept apart.
\<close>

datatype slot = Unset | PyNone | Str string | PyInt int | PyFloat int int | PyBool bool

text \<open>\<open>d.get(k, default)\<close> with a string default: the default is for a missing key only.\<close>

definition get_default :: "slot \<Rightarrow> string \<Rightarrow> slot" where
  "get_default v d = (case v of Unset \<Rightarrow> Str d | _ \<Rightarrow> v)"

text \<open>
  \<open>PartInfoState\<close> is a Python dict. The fields that the code reads only through
  \<open>state.get(k)\<close> are options: \<open>None\<close> stands for a missing key as well as for a key
  holding \<open>None\<close>, which \<open>get\<close> does not tell apart. \<open>unspsc_code\<close> and \<open>unspsc_family\<close>
  are read through \<open>state.get(k, "NA")\<close>, where the two differ, and they hold whatever the
  classification stage stored, so they are slots. \<open>original_query\<close> is read as
  \<open>state["original_query"]\<close> and is there from the first Record on.
\<close>

record PartInfoState =
  original_query :: string
  translated_query :: "string option"
  search_results :: "string option"
  llm_response_json :: "string option"
  parsed_oem_info :: "OEMOutput option"
  unspsc_family :: slot
  unspsc_code :: slot
  error :: "string option"

text \<open>An exception is kept as its message, the \<open>str(e)\<close> the handlers format.\<close>

type_synonym exn = string

datatype error = ValidationError

text \<open>Python truthiness of an \<open>Optional[str]\<close>: \<open>None\<close> and \<open>""\<close> are false.\<close>

definition truthy :: "string option \<Rightarrow> bool" where
  "truthy v = (case v of None \<Rightarrow> False | Some t \<Rightarrow> t \<noteq> [])"

text \<open>\<open>a or b\<close> on an optional string and a string.\<close>

definition py_or :: "string option \<Rightarrow> string \<Rightarrow> string" where
  "py_or v d = (case v of None \<Rightarrow> d | Some t \<Rightarrow> if t = [] then d else t)"

text \<open>\<open>sub in text\<close> on strings.\<close>

fun startswith :: "string \<Rightarrow> string \<Rightarrow> bool" where
  "startswith [] ys = True"
| "startswith (x # xs) [] = False"
| "startswith (x # xs) (y # ys) = (x = y \<and> startswith xs ys)"

fun str_contains :: "string \<Rightarrow> string \<Rightarrow> bool" where
  "str_contains sub [] = (sub = [])"
| "str_contains sub (c # cs) = (startswith sub (c # cs) \<or> str_contains sub cs)"

text \<open>\<open>str(i)\<close> of a non-negative integer, for the \<open>Result {i}\<close> headers.\<close>

definition digit_char :: "nat \<Rightarrow> char" where
  "digit_char d = char_of (48 + d)"

fun str_nat :: "nat \<Rightarrow> string" where
  "str_nat n = (if n < 10 then [digit_char n] else str_nat (n div 10) @ [digit_char (n mod 10)])"

section \<open>External collaborators\<close>

text \<open>
  One search hit of the JSON answer (\<open>item.get('title', 'N/A')\<close> and so on): a missing
  key is \<open>None\<close>. The metadata of one neighbour of the vector index
  (\<open>.get('family', 'na')\<close>): each entry is a slot, since the index stores strings, integers,
  floats and booleans, and \<open>scripts/setup_vectordb.py\<close> writes the \<open>family\<close> column as the
  CSV reader typed it.
\<close>

record item =
  title :: "string option"
  link :: "string option"
  snippet :: "string option"

record metadata =
  family :: slot
  family_title :: slot

text \<open>
  The configuration read from the process environment and the providers the stages call.
  A call returns \<open>Inl\<close> of the message when it raises.
  \<^item> \<open>client_from_json\<close>: \<open>translate.Client.from_service_account_json(path)\<close>;
  \<^item> \<open>detect_language\<close>: the \<open>language\<close> of \<open>detect_language(text)\<close>;
  \<^item> \<open>translate_en\<close>: the \<open>translatedText\<close> of \<open>translate(text, target_language="en")\<close>;
  \<^item> \<open>search_request\<close>: \<open>requests.get\<close>, \<open>raise_for_status\<close> and \<open>json()\<close>, giving the
    \<open>items\<close> of the answer (\<open>None\<close> when the key is missing);
  \<^item> \<open>generate_completion\<close>: \<open>LLMAgent()\<close> and the chat completion on the user content,
    whose \<open>message.content\<close> may be \<open>None\<close>;
  \<^item> \<open>parser_parse\<close>: \<open>PydanticOutputParser(pydantic_object=OEMOutput).parse\<close>;
  \<^item> \<open>new_vector_agent\<close>: \<open>VectorSearchAgent(vectordb_path)\<close>;
  \<^item> \<open>agent_search\<close>: \<open>agent.search(part_category)\<close>, giving \<open>results['metadatas']\<close>
    (\<open>None\<close> when \<open>results\<close> or that entry is empty or \<open>None\<close>).
\<close>

record env =
  GOOGLE_SERVICE_ACCOUNT_PATH :: "string option"
  VECTORDB_PATH :: "string option"
  client_from_json :: "string \<Rightarrow> exn + unit"
  detect_language :: "string \<Rightarrow> exn + string"
  translate_en :: "string \<Rightarrow> exn + string"
  search_request :: "string \<Rightarrow> exn + item list option"
  generate_completion :: "string \<Rightarrow> exn + string option"
  parser_parse :: "string \<Rightarrow> exn + OEMOutput"
  new_vector_agent :: "string \<Rightarrow> exn + unit"
  agent_search :: "string \<Rightarrow> exn + metadata list list option"

section \<open>Configuration (origyn/config.py)\<close>

definition get_service_account_path :: "env \<Rightarrow> exn + string" where
  "get_service_account_path E =
     (if \<not> truthy (GOOGLE_SERVICE_ACCOUNT_PATH E)
      then Inl ''GOOGLE_SERVICE_ACCOUNT_PATH is not set in the environment variables.''
      else Inr (the (GOOGLE_SERVICE_ACCOUNT_PATH E)))"

definition get_vectordb_path :: "env \<Rightarrow> exn + string" where
  "get_vectordb_path E =
     (if \<not> truthy (VECTORDB_PATH E)
      then Inl ''VECTORDB_PATH is not set in the environment variables.''
      else Inr (the (VECTORDB_PATH E)))"

section \<open>Translation stage (origyn/agents/translation_agent.py)\<close>

text \<open>The body of the \<open>try\<close>: the text to store, or the exception raised on the way.\<close>

definition translated_text :: "env \<Rightarrow> string \<Rightarrow> exn + string" where
  "translated_text E text =
     (case get_service_account_path E of Inl e \<Rightarrow> Inl e | Inr path \<Rightarrow>
      case client_from_json E path of Inl e \<Rightarrow> Inl e | Inr _ \<Rightarrow>
      case detect_language E text of Inl e \<Rightarrow> Inl e | Inr text_language \<Rightarrow>
      if text_language \<noteq> ''en'' then translate_en E text else Inr text)"

definition translating_agent_node :: "env \<Rightarrow> PartInfoState \<Rightarrow> PartInfoState" where
  "translating_agent_node E state =
     (case translated_text E (PartInfoState.original_query state) of
        Inr t \<Rightarrow> state\<lparr>translated_query := Some t, error := None\<rparr>
      | Inl e \<Rightarrow> state\<lparr>error := Some (''Translation error: '' @ e)\<rparr>)"

section \<open>Search stage (origyn/agents/search_agent.py)\<close>

definition get_or :: "string option \<Rightarrow> string \<Rightarrow> string" where
  "get_or v d = (case v of None \<Rightarrow> d | Some t \<Rightarrow> t)"

fun format_items :: "nat \<Rightarrow> item list \<Rightarrow> string" where
  "format_items i [] = []"
| "format_items i (it # its) =
     ''Result '' @ str_nat i @ '':'' @ [CHR 0x0A]
     @ ''Title: '' @ get_or (title it) ''N/A'' @ [CHR 0x0A]
     @ ''URL: '' @ get_or (link it) ''N/A'' @ [CHR 0x0A]
     @ ''Snippet: '' @ get_or (snippet it) ''N/A'' @ [CHR 0x0A, CHR 0x0A]
     @ format_items (Suc i) its"

definition formatted_results :: "string \<Rightarrow> item list option \<Rightarrow> string" where
  "formatted_results part_query its =
     ''Search results for part query: '' @ part_query @ [CHR 0x0A, CHR 0x0A]
     @ (case its of
          None \<Rightarrow> ''No search results found.''
        | Some [] \<Rightarrow> ''No search results found.''
        | Some (x # xs) \<Rightarrow> format_items 1 (x # xs))"

definition web_search_agent_node :: "env \<Rightarrow> PartInfoState \<Rightarrow> PartInfoState" where
  "web_search_agent_node E state =
     (if truthy (error state) then state
      else if \<not> truthy (translated_query state)
      then state\<lparr>error := Some ''No translated query available for search.''\<rparr>
      else let part_query = the (translated_query state) in
        (case search_request E (part_query @ '' manufacturer'') of
           Inr its \<Rightarrow> state\<lparr>search_results := Some (formatted_results part_query its),
                             error := None\<rparr>
         | Inl e \<Rightarrow> state\<lparr>search_results := Some (''Error performing search: '' @ e),
                           error := Some (''Search error: '' @ e)\<rparr>))"

section \<open>Synthesis and parsing stages (origyn/agents/llm_agent.py)\<close>

definition na_output :: OEMOutput where
  "na_output = \<lparr>OEMOutput.oem = ''NA'', part_category = ''NA''\<rparr>"

text \<open>\<open>na_output.model_dump_json()\<close>, the compact JSON text of the canonical answer.\<close>

definition na_output_json :: string where
  "na_output_json =
     ''{'' @ [CHR 0x22] @ ''oem'' @ [CHR 0x22] @ '':'' @ [CHR 0x22] @ ''NA'' @ [CHR 0x22]
     @ '','' @ [CHR 0x22] @ ''part_category'' @ [CHR 0x22] @ '':'' @ [CHR 0x22] @ ''NA''
     @ [CHR 0x22] @ ''}''"

definition no_valid_results :: "string option \<Rightarrow> bool" where
  "no_valid_results content =
     (\<not> truthy content
      \<or> str_contains ''Error performing search'' (the content)
      \<or> str_contains ''No search results found'' (the content))"

definition synthesize_oem_info_node :: "env \<Rightarrow> PartInfoState \<Rightarrow> PartInfoState" where
  "synthesize_oem_info_node E state =
     (if truthy (error state) then state
      else if no_valid_results (search_results state)
      then state\<lparr>llm_response_json := Some na_output_json,
                  parsed_oem_info := Some na_output,
                  error := Some ''No valid search results for synthesis.''\<rparr>
      else (case generate_completion E (the (search_results state)) of
              Inr llm_response \<Rightarrow> state\<lparr>llm_response_json := llm_response, error := None\<rparr>
            | Inl e \<Rightarrow> state\<lparr>error := Some (''LLM synthesis error: '' @ e)\<rparr>))"

definition parse_llm_output_node :: "env \<Rightarrow> PartInfoState \<Rightarrow> PartInfoState" where
  "parse_llm_output_node E state =
     (if truthy (error state) \<and> llm_response_json state = None then state
      else if \<not> truthy (llm_response_json state)
      then state\<lparr>error := Some ''No LLM response to parse.''\<rparr>
      else let llm_json_response = the (llm_response_json state) in
        (case parser_parse E llm_json_response of
           Inr parsed_data \<Rightarrow> state\<lparr>parsed_oem_info := Some parsed_data, error := error state\<rparr>
         | Inl e \<Rightarrow> state\<lparr>error := Some (''Parsing error: '' @ e
                              @ ''. Original LLM response: '' @ llm_json_response)\<rparr>))"

section \<open>Classification stage (origyn/agents/vector_search_agent.py)\<close>

text \<open>
  \<open>vector_try\<close> is the body of the \<open>try\<close>: it builds the agent first, then takes the
  category, and asks the index only for a category other than \<open>"na"\<close>. It gives the
  Record to return, or the exception raised on the way. \<open>vector_except\<close> is the handler:
  it keeps the Record and writes \<open>error\<close> only.
\<close>

definition category_of :: "PartInfoState \<Rightarrow> string" where
  "category_of state =
     (case parsed_oem_info state of Some info \<Rightarrow> OEMOutput.part_category info | None \<Rightarrow> ''na'')"

definition na_fallback :: "PartInfoState \<Rightarrow> PartInfoState" where
  "na_fallback state =
     state\<lparr>PartInfoState.unspsc_code := Str ''na'', PartInfoState.unspsc_family := Str ''na'',
           error := error state\<rparr>"

text \<open>
  \<open>results['metadatas'][0][0]\<close> behind the guard
  \<open>not results or not results['metadatas'] or not results['metadatas'][0]\<close>.
\<close>

definition first_metadata :: "metadata list list option \<Rightarrow> metadata option" where
  "first_metadata results = (case results of Some ((m # _) # _) \<Rightarrow> Some m | _ \<Rightarrow> None)"

definition vector_try :: "env \<Rightarrow> PartInfoState \<Rightarrow> exn + PartInfoState" where
  "vector_try E state =
     (case get_vectordb_path E of Inl e \<Rightarrow> Inl e | Inr vectordb_path \<Rightarrow>
      case new_vector_agent E vectordb_path of Inl e \<Rightarrow> Inl e | Inr _ \<Rightarrow>
      if category_of state = ''na''
      then Inr (state\<lparr>PartInfoState.unspsc_code := Str ''na'',
                       PartInfoState.unspsc_family := Str ''na'',
                       error := Some (py_or (error state) ''No valid part category'')\<rparr>)
      else
        (case agent_search E (category_of state) of
           Inl e \<Rightarrow> Inl e
         | Inr results \<Rightarrow>
             (case first_metadata results of
                None \<Rightarrow> Inr (na_fallback state)
              | Some m \<Rightarrow>
                  Inr (state\<lparr>PartInfoState.unspsc_code := get_default (family m) ''na'',
                              PartInfoState.unspsc_family := get_default (family_title m) ''na'',
                              error := error state\<rparr>))))"

definition vector_except :: "PartInfoState \<Rightarrow> exn \<Rightarrow> PartInfoState" where
  "vector_except state e =
     state\<lparr>error := Some (py_or (error state) (''Vector search error: '' @ e))\<rparr>"

definition vector_search_agent_node :: "env \<Rightarrow> PartInfoState \<Rightarrow> PartInfoState" where
  "vector_search_agent_node E state =
     (if truthy (error state) \<and> parsed_oem_info state = None then state
      else (case vector_try E state of Inr state' \<Rightarrow> state' | Inl e \<Rightarrow> vector_except state e))"

section \<open>Runner and output assembler (origyn/workflows/workflow.py, origyn/models.py)\<close>

text \<open>
  \<open>OEMResult.from_state\<close>: \<open>state.get(k, "NA")\<close> gives the default for a missing key only,
  and the model's validation refuses a field that is not a string.
\<close>

definition from_state :: "PartInfoState \<Rightarrow> error + OEMResult" where
  "from_state state =
     (case (get_default (PartInfoState.unspsc_code state) ''NA'',
            get_default (PartInfoState.unspsc_family state) ''NA'') of
        (Str c, Str f) \<Rightarrow>
          Inr \<lparr>OEMResult.original_query = PartInfoState.original_query state,
               oem = (case parsed_oem_info state of Some i \<Rightarrow> OEMOutput.oem i | None \<Rightarrow> ''NA''),
               part_category =
                 (case parsed_oem_info state of Some i \<Rightarrow> OEMOutput.part_category i | None \<Rightarrow> ''NA''),
               unspsc_code = c, unspsc_family = f\<rparr>
      | _ \<Rightarrow> Inl ValidationError)"

text \<open>
  The graph is the chain translate, search, synthesize, parse_output, vector_search; each
  node returns the whole Record, so a run is the composition of the five nodes on the
  Record that holds the query alone. \<open>records\<close> lists the Record before the first stage
  and after each stage.
\<close>

definition inputs :: "string \<Rightarrow> PartInfoState" where
  "inputs part_query =
     \<lparr>PartInfoState.original_query = part_query, translated_query = None,
      search_results = None, llm_response_json = None, parsed_oem_info = None,
      unspsc_family = Unset, unspsc_code = Unset, error = None\<rparr>"

definition nodes :: "env \<Rightarrow> (PartInfoState \<Rightarrow> PartInfoState) list" where
  "nodes E = [translating_agent_node E, web_search_agent_node E, synthesize_oem_info_node E,
              parse_llm_output_node E, vector_search_agent_node E]"

fun invoke_from :: "(PartInfoState \<Rightarrow> PartInfoState) list \<Rightarrow> PartInfoState \<Rightarrow> PartInfoState list" where
  "invoke_from [] state = [state]"
| "invoke_from (node # rest) state = state # invoke_from rest (node state)"

definition records :: "env \<Rightarrow> string \<Rightarrow> PartInfoState list" where
  "records E part_query = invoke_from (nodes E) (inputs part_query)"

definition invoke :: "env \<Rightarrow> string \<Rightarrow> PartInfoState" where
  "invoke E part_query = last (records E part_query)"

definition run :: "env \<Rightarrow> string \<Rightarrow> error + OEMResult" where
  "run E part_query = from_state (invoke E part_query)"

section \<open>Properties of a Record\<close>

text \<open>
  What the validation of \<open>OEMResult\<close> lets through under \<open>state.get(k, "NA")\<close>: a missing
  key or a string.
\<close>

definition holds_text :: "slot \<Rightarrow> bool" where
  "holds_text v = (case v of Unset \<Rightarrow> True | Str t \<Rightarrow> True | _ \<Rightarrow> False)"

text \<open>
  Where a classification comes from: it is the canonical not-available answer, stored by
  the synthesis stage with its JSON text, or what the parser returned for the non-empty
  text in \<open>llm_response_json\<close>.
\<close>

definition classification_source :: "env \<Rightarrow> PartInfoState \<Rightarrow> bool" where
  "classification_source E s =
     (case parsed_oem_info s of
        None \<Rightarrow> True
      | Some info \<Rightarrow>
          (info = na_output \<and> llm_response_json s = Some na_output_json)
          \<or> (case llm_response_json s of
                Some raw \<Rightarrow> raw \<noteq> [] \<and> parser_parse E raw = Inr info
              | None \<Rightarrow> False))"

text \<open>
  The taxonomy fields go together: both missing, both \<open>"na"\<close>, or the two entries of the
  nearest neighbour of the Record's category, each with \<open>"na"\<close> for a key the neighbour's
  metadata lacks.
\<close>

definition taxonomy_paired :: "env \<Rightarrow> PartInfoState \<Rightarrow> bool" where
  "taxonomy_paired E s =
     ((PartInfoState.unspsc_code s = Unset \<and> PartInfoState.unspsc_family s = Unset)
      \<or> (PartInfoState.unspsc_code s = Str ''na'' \<and> PartInfoState.unspsc_family s = Str ''na'')
      \<or> (case agent_search E (category_of s) of
            Inr res \<Rightarrow>
              (case first_metadata res of
                 Some m \<Rightarrow>
                   PartInfoState.unspsc_code s = get_default (family m) ''na''
                   \<and> PartInfoState.unspsc_family s = get_default (family_title m) ''na''
               | None \<Rightarrow> False)
          | Inl e \<Rightarrow> False))"

section \<open>Scenarios\<close>

text \<open>
  The providers of end-to-end scenario A: the query is English already, the search gives
  one hit, the completion gives a text the parser accepts, the index gives one neighbour.
  The parser also accepts the canonical not-available text. The other environments change
  one provider each.
\<close>

definition skf_output :: OEMOutput where
  "skf_output = \<lparr>OEMOutput.oem = ''skf'', part_category = ''bearings''\<rparr>"

definition scenario_env :: env where
  "scenario_env =
     \<lparr>GOOGLE_SERVICE_ACCOUNT_PATH = Some ''sa.json'', VECTORDB_PATH = Some ''db'',
      client_from_json = (\<lambda>_. Inr ()),
      detect_language = (\<lambda>_. Inr ''en''),
      translate_en = (\<lambda>t. Inr t),
      search_request =
        (\<lambda>_. Inr (Some [\<lparr>title = Some ''SKF'', link = None, snippet = Some ''bearing''\<rparr>])),
      generate_completion = (\<lambda>_. Inr (Some ''{skf}'')),
      parser_parse =
        (\<lambda>raw. if raw = ''{skf}'' then Inr skf_output
               else if raw = na_output_json then Inr na_output
               else Inl ''Invalid json output''),
      new_vector_agent = (\<lambda>_. Inr ()),
      agent_search =
        (\<lambda>_. Inr (Some [[\<lparr>family = Str ''31'', family_title = Str ''bearings''\<rparr>]]))\<rparr>"

definition env_search_timeout :: env where
  "env_search_timeout = scenario_env\<lparr>search_request := (\<lambda>_. Inl ''timeout'')\<rparr>"

definition env_no_results :: env where
  "env_no_results = scenario_env\<lparr>search_request := (\<lambda>_. Inr None)\<rparr>"

definition env_malformed :: env where
  "env_malformed = scenario_env\<lparr>generate_completion := (\<lambda>_. Inr (Some ''oops''))\<rparr>"

definition env_zero_hits :: env where
  "env_zero_hits = scenario_env\<lparr>agent_search := (\<lambda>_. Inr (Some [[]]))\<rparr>"

definition env_title_missing :: env where
  "env_title_missing =
     scenario_env\<lparr>agent_search := (\<lambda>_. Inr (Some [[\<lparr>family = Str ''31'', family_title = Unset\<rparr>]]))\<rparr>"

definition env_int_family :: env where
  "env_int_family =
     scenario_env\<lparr>agent_search :=
       (\<lambda>_. Inr (Some [[\<lparr>family = PyInt 31, family_title = Str ''bearings''\<rparr>]]))\<rparr>"

definition env_index_down :: env where
  "env_index_down = scenario_env\<lparr>agent_search := (\<lambda>_. Inl ''index unavailable'')\<rparr>"

section \<open>The stages, branch by branch\<close>

lemma records_unfold:
  "records E q =
     [inputs q,
      translating_agent_node E (inputs q),
      web_search_agent_node E (translating_agent_node E (inputs q)),
      synthesize_oem_info_node E (web_search_agent_node E (translating_agent_node E (inputs q))),
      parse_llm_output_node E (synthesize_oem_info_node E (web_search_agent_node E (translating_agent_node E (inputs q)))),
      vector_search_agent_node E (parse_llm_output_node E (synthesize_oem_info_node E (web_search_agent_node E (translating_agent_node E (inputs q)))))]"
  by (simp add: records_def nodes_def)

lemma records_nth:
  "records E q ! 0 = inputs q"
  "records E q ! 1 = translating_agent_node E (records E q ! 0)"
  "records E q ! 2 = web_search_agent_node E (records E q ! 1)"
  "records E q ! 3 = synthesize_oem_info_node E (records E q ! 2)"
  "records E q ! 4 = parse_llm_output_node E (records E q ! 3)"
  "records E q ! 5 = vector_search_agent_node E (records E q ! 4)"
  "invoke E q = records E q ! 5"
  by (simp_all add: records_unfold invoke_def)

lemma translating_returns:
  "translated_text E (PartInfoState.original_query s) = Inr t \<Longrightarrow>
     translating_agent_node E s = s\<lparr>translated_query := Some t, error := None\<rparr>"
  by (simp add: translating_agent_node_def)

lemma search_returns:
  "\<not> truthy (error s) \<Longrightarrow> translated_query s = Some t \<Longrightarrow> t \<noteq> [] \<Longrightarrow>
   search_request E (t @ '' manufacturer'') = Inr its \<Longrightarrow>
     web_search_agent_node E s = s\<lparr>search_results := Some (formatted_results t its), error := None\<rparr>"
  by (simp add: web_search_agent_node_def truthy_def)

lemma search_raises:
  "\<not> truthy (error s) \<Longrightarrow> translated_query s = Some t \<Longrightarrow> t \<noteq> [] \<Longrightarrow>
   search_request E (t @ '' manufacturer'') = Inl e \<Longrightarrow>
     web_search_agent_node E s =
       s\<lparr>search_results := Some (''Error performing search: '' @ e),
          error := Some (''Search error: '' @ e)\<rparr>"
  by (simp add: web_search_agent_node_def truthy_def)

lemma synthesize_soft:
  "\<not> truthy (error s) \<Longrightarrow> no_valid_results (search_results s) \<Longrightarrow>
     synthesize_oem_info_node E s =
       s\<lparr>llm_response_json := Some na_output_json, parsed_oem_info := Some na_output,
          error := Some ''No valid search results for synthesis.''\<rparr>"
  by (simp add: synthesize_oem_info_node_def)

lemma synthesize_returns:
  "\<not> truthy (error s) \<Longrightarrow> \<not> no_valid_results (search_results s) \<Longrightarrow>
   generate_completion E (the (search_results s)) = Inr r \<Longrightarrow>
     synthesize_oem_info_node E s = s\<lparr>llm_response_json := r, error := None\<rparr>"
  by (simp add: synthesize_oem_info_node_def)

lemma parse_skips:
  "truthy (error s) \<Longrightarrow> llm_response_json s = None \<Longrightarrow> parse_llm_output_node E s = s"
  by (simp add: parse_llm_output_node_def)

lemma parse_nothing:
  "\<not> truthy (llm_response_json s) \<Longrightarrow> \<not> (truthy (error s) \<and> llm_response_json s = None) \<Longrightarrow>
     parse_llm_output_node E s = s\<lparr>error := Some ''No LLM response to parse.''\<rparr>"
  by (auto simp: parse_llm_output_node_def)

lemma parse_accepts:
  "llm_response_json s = Some raw \<Longrightarrow> raw \<noteq> [] \<Longrightarrow> parser_parse E raw = Inr info \<Longrightarrow>
     parse_llm_output_node E s = s\<lparr>parsed_oem_info := Some info\<rparr>"
  by (simp add: parse_llm_output_node_def truthy_def)

lemma parse_rejects:
  "llm_response_json s = Some raw \<Longrightarrow> raw \<noteq> [] \<Longrightarrow> parser_parse E raw = Inl e \<Longrightarrow>
     parse_llm_output_node E s =
       s\<lparr>error := Some (''Parsing error: '' @ e @ ''. Original LLM response: '' @ raw)\<rparr>"
  by (simp add: parse_llm_output_node_def truthy_def)

lemma vector_skips:
  "truthy (error s) \<Longrightarrow> parsed_oem_info s = None \<Longrightarrow> vector_search_agent_node E s = s"
  by (simp add: vector_search_agent_node_def)

lemma vector_na_branch:
  "\<not> (truthy (error s) \<and> parsed_oem_info s = None) \<Longrightarrow> get_vectordb_path E = Inr p \<Longrightarrow>
   new_vector_agent E p = Inr u \<Longrightarrow> category_of s = ''na'' \<Longrightarrow>
     vector_search_agent_node E s =
       s\<lparr>PartInfoState.unspsc_code := Str ''na'', PartInfoState.unspsc_family := Str ''na'',
          error := Some (py_or (error s) ''No valid part category'')\<rparr>"
  by (auto simp: vector_search_agent_node_def vector_try_def)

lemma vector_no_neighbour:
  "get_vectordb_path E = Inr p \<Longrightarrow> new_vector_agent E p = Inr u \<Longrightarrow>
   category_of s \<noteq> ''na'' \<Longrightarrow> agent_search E (category_of s) = Inr res \<Longrightarrow>
   first_metadata res = None \<Longrightarrow>
     vector_search_agent_node E s =
       s\<lparr>PartInfoState.unspsc_code := Str ''na'', PartInfoState.unspsc_family := Str ''na''\<rparr>"
  by (auto simp: vector_search_agent_node_def vector_try_def na_fallback_def category_of_def
           split: option.splits)

lemma vector_neighbour:
  "get_vectordb_path E = Inr p \<Longrightarrow> new_vector_agent E p = Inr u \<Longrightarrow>
   category_of s \<noteq> ''na'' \<Longrightarrow> agent_search E (category_of s) = Inr res \<Longrightarrow>
   first_metadata res = Some m \<Longrightarrow>
     vector_search_agent_node E s =
       s\<lparr>PartInfoState.unspsc_code := get_default (family m) ''na'',
          PartInfoState.unspsc_family := get_default (family_title m) ''na''\<rparr>"
  by (auto simp: vector_search_agent_node_def vector_try_def category_of_def
           split: option.splits)

section \<open>What the stages leave alone\<close>

lemma translating_frame:
  "PartInfoState.original_query (translating_agent_node E s) = PartInfoState.original_query s"
  "PartInfoState.unspsc_code (translating_agent_node E s) = PartInfoState.unspsc_code s"
  "PartInfoState.unspsc_family (translating_agent_node E s) = PartInfoState.unspsc_family s"
  "parsed_oem_info (translating_agent_node E s) = parsed_oem_info s"
  "llm_response_json (translating_agent_node E s) = llm_response_json s"
  by (simp_all add: translating_agent_node_def split: sum.split)

lemma search_frame:
  "PartInfoState.original_query (web_search_agent_node E s) = PartInfoState.original_query s"
  "PartInfoState.unspsc_code (web_search_agent_node E s) = PartInfoState.unspsc_code s"
  "PartInfoState.unspsc_family (web_search_agent_node E s) = PartInfoState.unspsc_family s"
  "parsed_oem_info (web_search_agent_node E s) = parsed_oem_info s"
  "llm_response_json (web_search_agent_node E s) = llm_response_json s"
  by (simp_all add: web_search_agent_node_def Let_def split: sum.split)

lemma synthesize_frame:
  "PartInfoState.original_query (synthesize_oem_info_node E s) = PartInfoState.original_query s"
  "PartInfoState.unspsc_code (synthesize_oem_info_node E s) = PartInfoState.unspsc_code s"
  "PartInfoState.unspsc_family (synthesize_oem_info_node E s) = PartInfoState.unspsc_family s"
  by (simp_all add: synthesize_oem_info_node_def split: sum.split)

lemma parse_frame:
  "PartInfoState.original_query (parse_llm_output_node E s) = PartInfoState.original_query s"
  "PartInfoState.unspsc_code (parse_llm_output_node E s) = PartInfoState.unspsc_code s"
  "PartInfoState.unspsc_family (parse_llm_output_node E s) = PartInfoState.unspsc_family s"
  "llm_response_json (parse_llm_output_node E s) = llm_response_json s"
  by (simp_all add: parse_llm_output_node_def Let_def split: sum.split)

lemma vector_try_frame:
  "vector_try E s = Inr s' \<Longrightarrow>
     PartInfoState.original_query s' = PartInfoState.original_query s
     \<and> parsed_oem_info s' = parsed_oem_info s
     \<and> llm_response_json s' = llm_response_json s"
  by (auto simp: vector_try_def na_fallback_def split: sum.splits if_splits option.splits)

lemma vector_frame:
  "PartInfoState.original_query (vector_search_agent_node E s) = PartInfoState.original_query s"
  "parsed_oem_info (vector_search_agent_node E s) = parsed_oem_info s"
  "llm_response_json (vector_search_agent_node E s) = llm_response_json s"
  by (auto simp: vector_search_agent_node_def vector_except_def dest: vector_try_frame
           split: sum.split)

lemma original_query_records:
  "s \<in> set (records E q) \<Longrightarrow> PartInfoState.original_query s = q"
  by (auto simp: records_unfold translating_frame search_frame synthesize_frame parse_frame
                 vector_frame inputs_def)

section \<open>The taxonomy fields\<close>

lemma vector_slots:
  "(PartInfoState.unspsc_code (vector_search_agent_node E s) = PartInfoState.unspsc_code s
      \<and> PartInfoState.unspsc_family (vector_search_agent_node E s) = PartInfoState.unspsc_family s)
   \<or> (PartInfoState.unspsc_code (vector_search_agent_node E s) = Str ''na''
      \<and> PartInfoState.unspsc_family (vector_search_agent_node E s) = Str ''na'')
   \<or> (case agent_search E (category_of s) of
         Inr res \<Rightarrow>
           (case first_metadata res of
              Some m \<Rightarrow>
                PartInfoState.unspsc_code (vector_search_agent_node E s) = get_default (family m) ''na''
                \<and> PartInfoState.unspsc_family (vector_search_agent_node E s)
                    = get_default (family_title m) ''na''
            | None \<Rightarrow> False)
       | Inl e \<Rightarrow> False)"
  by (simp add: vector_search_agent_node_def vector_try_def vector_except_def na_fallback_def
           split: sum.split option.split)

lemma unset_before_vector:
  "PartInfoState.unspsc_code (records E q ! 4) = Unset"
  "PartInfoState.unspsc_family (records E q ! 4) = Unset"
  by (simp_all add: records_unfold translating_frame search_frame synthesize_frame parse_frame
                    inputs_def)

lemma category_of_vector: "category_of (vector_search_agent_node E s) = category_of s"
  by (simp add: category_of_def vector_frame)

lemma invoke_in_records: "invoke E q \<in> set (records E q)"
  by (simp add: invoke_def records_unfold)


lemma from_state_refuses:
  "\<not> holds_text (PartInfoState.unspsc_code s) \<or> \<not> holds_text (PartInfoState.unspsc_family s) \<Longrightarrow>
     from_state s = Inl ValidationError"
  by (auto simp: from_state_def get_default_def holds_text_def split: slot.splits)



section \<open>Failure of the search provider\<close>

text \<open>
  Claim C2. In every run in which the translation gave a non-empty query and the search
  request raises, the search stage stores the failure text and the error, the synthesis,
  parsing and classification stages return that Record unchanged, and the Result is the
  query with \<open>"NA"\<close> in the four other fields.
\<close>

theorem search_failure_gives_na:
  assumes "translated_text E q = Inr t" and "t \<noteq> []"
    and "search_request E (t @ '' manufacturer'') = Inl e"
  shows "records E q ! 2 =
           (inputs q)\<lparr>translated_query := Some t,
                      search_results := Some (''Error performing search: '' @ e),
                      error := Some (''Search error: '' @ e)\<rparr>
         \<and> synthesize_oem_info_node E (records E q ! 2) = records E q ! 2
         \<and> parse_llm_output_node E (records E q ! 2) = records E q ! 2
         \<and> vector_search_agent_node E (records E q ! 2) = records E q ! 2
         \<and> run E q =
             Inr \<lparr>OEMResult.original_query = q, oem = ''NA'', part_category = ''NA'',
                  unspsc_code = ''NA'', unspsc_family = ''NA''\<rparr>"
proof -
  define s2 where "s2 = (inputs q)\<lparr>translated_query := Some t,
      search_results := Some (''Error performing search: '' @ e),
      error := Some (''Search error: '' @ e)\<rparr>"
  have s1: "translating_agent_node E (inputs q) = (inputs q)\<lparr>translated_query := Some t, error := None\<rparr>"
    using assms(1) by (simp add: translating_returns inputs_def)
  have "web_search_agent_node E ((inputs q)\<lparr>translated_query := Some t, error := None\<rparr>) = s2"
    using assms(2,3) unfolding s2_def
    by (simp add: search_raises [where t = t and e = e] truthy_def)
  with s1 have r2: "records E q ! 2 = s2"
    by (simp add: records_unfold)
  have err: "truthy (error s2)"
    by (simp add: s2_def truthy_def)
  have absent: "llm_response_json s2 = None" "parsed_oem_info s2 = None"
    "PartInfoState.unspsc_code s2 = Unset" "PartInfoState.unspsc_family s2 = Unset"
    "PartInfoState.original_query s2 = q"
    by (simp_all add: s2_def inputs_def)
  have syn: "synthesize_oem_info_node E s2 = s2"
    using err by (simp add: synthesize_oem_info_node_def)
  have par: "parse_llm_output_node E s2 = s2"
    using err absent by (simp add: parse_skips)
  have vec: "vector_search_agent_node E s2 = s2"
    using err absent by (simp add: vector_skips)
  have "invoke E q = s2"
    using r2 syn par vec by (simp add: invoke_def records_unfold)
  then have "run E q = Inr \<lparr>OEMResult.original_query = q, oem = ''NA'', part_category = ''NA'',
                  unspsc_code = ''NA'', unspsc_family = ''NA''\<rparr>"
    using absent by (simp add: run_def from_state_def get_default_def)
  with r2 syn par vec show ?thesis
    unfolding s2_def by simp
qed

theorem search_failure_gives_na_witness:
  "translated_text env_search_timeout ''SKF 6205'' = Inr ''SKF 6205''
   \<and> search_request env_search_timeout (''SKF 6205'' @ '' manufacturer'') = Inl ''timeout''
   \<and> error (records env_search_timeout ''SKF 6205'' ! 2) = Some ''Search error: timeout''
   \<and> run env_search_timeout ''SKF 6205'' =
       Inr \<lparr>OEMResult.original_query = ''SKF 6205'', oem = ''NA'', part_category = ''NA'',
            unspsc_code = ''NA'', unspsc_family = ''NA''\<rparr>"
proof -
  have t: "translated_text env_search_timeout ''SKF 6205'' = Inr ''SKF 6205''"
    by (simp add: translated_text_def get_service_account_path_def truthy_def
                  env_search_timeout_def scenario_env_def)
  have r: "search_request env_search_timeout (''SKF 6205'' @ '' manufacturer'') = Inl ''timeout''"
    by (simp add: env_search_timeout_def)
  show ?thesis
    using t r search_failure_gives_na [OF t _ r] by simp
qed

section \<open>The parsing stage\<close>

lemma startswith_append: "startswith sub (sub @ post)"
  by (induction sub) simp_all

lemma str_contains_empty: "str_contains [] content"
  by (cases content) simp_all

lemma str_contains_append: "str_contains sub (pre @ sub @ post)"
proof (induction pre)
  case Nil
  have "startswith sub (sub @ post)" by (rule startswith_append)
  then show ?case
    by (cases "sub @ post") (auto simp: str_contains_empty)
next
  case (Cons c pre)
  then show ?case by simp
qed

lemma str_contains_suffix: "str_contains sub (pre @ sub)"
  using str_contains_append [of sub pre "[]"] by simp

section \<open>Exceptions in the classification stage\<close>

lemma vector_try_raises_iff:
  "vector_try E s = Inl e \<longleftrightarrow>
     get_vectordb_path E = Inl e
     \<or> (\<exists>p. get_vectordb_path E = Inr p
          \<and> (new_vector_agent E p = Inl e
             \<or> (new_vector_agent E p = Inr ()
                \<and> category_of s \<noteq> ''na'' \<and> agent_search E (category_of s) = Inl e)))"
  by (auto simp: vector_try_def split: sum.splits option.splits)

text \<open>
  Claim C10. When the classification stage does not skip and the body of its \<open>try\<close> raises
  (the path lookup, the agent, or the index query), the returned Record differs from the
  input in \<open>error\<close> at most: \<open>unspsc_code\<close> and \<open>unspsc_family\<close> stay as they were, and
  \<open>error\<close> is the prior error when there is one, else the vector-search-failure message.
\<close>

theorem vector_exception_frame:
  assumes "\<not> (truthy (error s) \<and> parsed_oem_info s = None)" and "vector_try E s = Inl e"
  shows "vector_search_agent_node E s =
           s\<lparr>error := Some (if truthy (error s) then the (error s)
                            else ''Vector search error: '' @ e)\<rparr>
         \<and> PartInfoState.unspsc_code (vector_search_agent_node E s) = PartInfoState.unspsc_code s
         \<and> PartInfoState.unspsc_family (vector_search_agent_node E s) = PartInfoState.unspsc_family s"
  using assms
  by (auto simp: vector_search_agent_node_def vector_except_def py_or_def truthy_def
           split: option.splits)

theorem vector_exception_frame_witness:
  "\<not> (truthy (error ((inputs ''x'')\<lparr>parsed_oem_info := Some skf_output\<rparr>))
       \<and> parsed_oem_info ((inputs ''x'')\<lparr>parsed_oem_info := Some skf_output\<rparr>) = None)
   \<and> vector_try env_index_down ((inputs ''x'')\<lparr>parsed_oem_info := Some skf_output\<rparr>)
       = Inl ''index unavailable''
   \<and> vector_search_agent_node env_index_down ((inputs ''x'')\<lparr>parsed_oem_info := Some skf_output\<rparr>)
       = (inputs ''x'')\<lparr>parsed_oem_info := Some skf_output,
                        error := Some ''Vector search error: index unavailable''\<rparr>
   \<and> PartInfoState.unspsc_code
        (vector_search_agent_node env_index_down ((inputs ''x'')\<lparr>parsed_oem_info := Some skf_output\<rparr>))
       = Unset"
proof -
  have raises: "vector_try env_index_down ((inputs ''x'')\<lparr>parsed_oem_info := Some skf_output\<rparr>)
       = Inl ''index unavailable''"
    by (simp add: vector_try_def get_vectordb_path_def truthy_def category_of_def skf_output_def
                  env_index_down_def scenario_env_def)
  show ?thesis
    using raises vector_exception_frame [OF _ raises]
    by (simp add: truthy_def inputs_def)
qed

section \<open>Runs that reach the completion provider\<close>

lemma searched_record:
  assumes "translated_text E q = Inr t" and "t \<noteq> []"
    and "search_request E (t @ '' manufacturer'') = Inr its"
  shows "records E q ! 2 =
           (inputs q)\<lparr>translated_query := Some t,
                      search_results := Some (formatted_results t its)\<rparr>"
proof -
  have "translating_agent_node E (inputs q) = (inputs q)\<lparr>translated_query := Some t\<rparr>"
    using assms(1) by (simp add: translating_returns inputs_def)
  moreover have "web_search_agent_node E ((inputs q)\<lparr>translated_query := Some t\<rparr>) =
      (inputs q)\<lparr>translated_query := Some t, search_results := Some (formatted_results t its)\<rparr>"
    using assms(2,3) by (simp add: search_returns [where t = t and its = its] truthy_def inputs_def)
  ultimately show ?thesis
    by (simp add: records_unfold)
qed

lemma synthesized_record:
  assumes "records E q ! 2 = s2" and "error s2 = None" and "search_results s2 = Some found"
    and "\<not> no_valid_results (Some found)"
    and "generate_completion E found = Inr (Some raw)"
  shows "records E q ! 3 = s2\<lparr>llm_response_json := Some raw\<rparr>"
proof -
  have "synthesize_oem_info_node E s2 = s2\<lparr>llm_response_json := Some raw, error := None\<rparr>"
    using assms(2-5) by (simp add: synthesize_returns truthy_def)
  also have "\<dots> = s2\<lparr>llm_response_json := Some raw\<rparr>"
    using assms(2) by (cases s2) simp
  finally show ?thesis
    using assms(1) by (simp only: records_nth)
qed

lemma classified_record:
  assumes "records E q ! 3 = s3" and "llm_response_json s3 = Some raw" and "raw \<noteq> []"
    and "parser_parse E raw = Inr info"
  shows "records E q ! 4 = s3\<lparr>parsed_oem_info := Some info\<rparr>"
proof -
  have "records E q ! 4 = parse_llm_output_node E (records E q ! 3)"
    by (rule records_nth(5))
  then show ?thesis
    using assms by (simp add: parse_accepts [where raw = raw and info = info])
qed

lemma parsed_in_records: "records E q ! 4 \<in> set (records E q)"
  by (simp add: records_unfold)

lemma sample_results_valid:
  "\<not> no_valid_results (Some (formatted_results ''SKF 6205''
        (Some [\<lparr>title = Some ''SKF'', link = None, snippet = Some ''bearing''\<rparr>])))"
  by (simp add: no_valid_results_def truthy_def formatted_results_def get_or_def digit_char_def)

lemma no_results_text: "no_valid_results (Some (formatted_results t None))"
proof -
  have "str_contains ''No search results found''
          ((''Search results for part query: '' @ t @ [CHR 0x0A, CHR 0x0A])
           @ ''No search results found'' @ ''.'')"
    by (rule str_contains_append)
  then show ?thesis
    by (simp add: no_valid_results_def formatted_results_def)
qed

section \<open>Malformed completion text\<close>

lemma malformed_run:
  assumes "\<not> truthy (error (records E q ! 2))"
    and "\<not> no_valid_results (search_results (records E q ! 2))"
    and "generate_completion E (the (search_results (records E q ! 2))) = Inr (Some raw)"
    and "parser_parse E raw = Inl e"
  shows "parsed_oem_info (records E q ! 4) = None
         \<and> error (records E q ! 4) =
             Some (if raw = [] then ''No LLM response to parse.''
                   else ''Parsing error: '' @ e @ ''. Original LLM response: '' @ raw)
         \<and> records E q ! 5 = records E q ! 4
         \<and> PartInfoState.unspsc_code (records E q ! 5) = Unset
         \<and> PartInfoState.unspsc_family (records E q ! 5) = Unset
         \<and> run E q =
             Inr \<lparr>OEMResult.original_query = q, oem = ''NA'', part_category = ''NA'',
                  unspsc_code = ''NA'', unspsc_family = ''NA''\<rparr>"
proof -
  define s2 where "s2 = records E q ! 2"
  define s3 where "s3 = records E q ! 3"
  define s4 where "s4 = records E q ! 4"
  define msg where "msg = (if raw = [] then ''No LLM response to parse.''
                   else ''Parsing error: '' @ e @ ''. Original LLM response: '' @ raw)"
  have none2: "parsed_oem_info s2 = None"
    unfolding s2_def by (simp add: records_unfold search_frame translating_frame inputs_def)
  have "s3 = synthesize_oem_info_node E s2"
    unfolding s3_def s2_def by (simp only: records_nth)
  then have s3: "s3 = s2\<lparr>llm_response_json := Some raw, error := None\<rparr>"
    using assms(1-3) unfolding s2_def by (simp add: synthesize_returns)
  have s4_eq: "s4 = parse_llm_output_node E s3"
    unfolding s4_def s3_def by (simp only: records_nth)
  have s4: "s4 = s3\<lparr>error := Some msg\<rparr>"
  proof (cases "raw = []")
    case True
    then show ?thesis
      unfolding s4_eq msg_def using s3 by (simp add: parse_nothing truthy_def)
  next
    case False
    then show ?thesis
      unfolding s4_eq msg_def using s3 assms(4) by (simp add: parse_rejects [where raw = raw and e = e])
  qed
  have "msg \<noteq> []"
    by (simp add: msg_def)
  then have err4: "truthy (error s4)"
    using s4 by (simp add: truthy_def)
  have none4: "parsed_oem_info s4 = None"
    using s4 s3 none2 by simp
  have s5: "records E q ! 5 = s4"
    using err4 none4 unfolding s4_def by (simp only: records_nth vector_skips)
  have unset: "PartInfoState.unspsc_code s4 = Unset" "PartInfoState.unspsc_family s4 = Unset"
    unfolding s4_def by (rule unset_before_vector)+
  have "PartInfoState.original_query s4 = q"
    unfolding s4_def by (rule original_query_records) (rule parsed_in_records)
  then have "from_state s4 = Inr \<lparr>OEMResult.original_query = q, oem = ''NA'', part_category = ''NA'',
                  unspsc_code = ''NA'', unspsc_family = ''NA''\<rparr>"
    using none4 unset by (simp add: from_state_def get_default_def)
  moreover have "invoke E q = s4"
    using s5 by (simp only: records_nth)
  ultimately have "run E q = Inr \<lparr>OEMResult.original_query = q, oem = ''NA'', part_category = ''NA'',
                  unspsc_code = ''NA'', unspsc_family = ''NA''\<rparr>"
    by (simp add: run_def)
  then show ?thesis
    using none4 s4 s5 unset unfolding s4_def [symmetric] msg_def by simp
qed

lemma malformed_scenario:
  "\<not> truthy (error (records env_malformed ''SKF 6205'' ! 2))"
  "\<not> no_valid_results (search_results (records env_malformed ''SKF 6205'' ! 2))"
  "generate_completion env_malformed (the (search_results (records env_malformed ''SKF 6205'' ! 2)))
     = Inr (Some ''oops'')"
  "parser_parse env_malformed ''oops'' = Inl ''Invalid json output''"
proof -
  have "translated_text env_malformed ''SKF 6205'' = Inr ''SKF 6205''"
    by (simp add: translated_text_def get_service_account_path_def truthy_def
                  env_malformed_def scenario_env_def)
  moreover have "search_request env_malformed (''SKF 6205'' @ '' manufacturer'') =
      Inr (Some [\<lparr>title = Some ''SKF'', link = None, snippet = Some ''bearing''\<rparr>])"
    by (simp add: env_malformed_def scenario_env_def)
  ultimately have r2: "records env_malformed ''SKF 6205'' ! 2 =
      (inputs ''SKF 6205'')\<lparr>translated_query := Some ''SKF 6205'',
         search_results := Some (formatted_results ''SKF 6205''
           (Some [\<lparr>title = Some ''SKF'', link = None, snippet = Some ''bearing''\<rparr>]))\<rparr>"
    by (intro searched_record) simp_all
  show "\<not> truthy (error (records env_malformed ''SKF 6205'' ! 2))"
    unfolding r2 by (simp add: truthy_def inputs_def)
  show "\<not> no_valid_results (search_results (records env_malformed ''SKF 6205'' ! 2))"
    unfolding r2 using sample_results_valid by simp
  show "generate_completion env_malformed (the (search_results (records env_malformed ''SKF 6205'' ! 2)))
     = Inr (Some ''oops'')"
    by (simp add: env_malformed_def)
  show "parser_parse env_malformed ''oops'' = Inl ''Invalid json output''"
    by (simp add: env_malformed_def scenario_env_def na_output_json_def)
qed

text \<open>
  Claim C8, as stated, fails: after a malformed completion the classification stage does
  not store \<open>"na"\<close>; it skips and leaves \<open>unspsc_code\<close> and \<open>unspsc_family\<close> missing.
\<close>

theorem malformed_completion_counterexample:
  "generate_completion env_malformed (the (search_results (records env_malformed ''SKF 6205'' ! 2)))
     = Inr (Some ''oops'')
   \<and> parser_parse env_malformed ''oops'' = Inl ''Invalid json output''
   \<and> PartInfoState.unspsc_code (records env_malformed ''SKF 6205'' ! 5) \<noteq> Str ''na''
   \<and> PartInfoState.unspsc_family (records env_malformed ''SKF 6205'' ! 5) \<noteq> Str ''na''"
  using malformed_scenario malformed_run [OF malformed_scenario]
  by (simp add: unset_before_vector)

text \<open>
  Claim C8, amended. In every run in which the completion provider is called and returns a
  text the parser refuses, the parsing stage records the failure (the no-response error for
  an empty text, else the parsing-failure message with the raw text) and leaves
  \<open>parsed_oem_info\<close> absent; the classification stage then returns the Record unchanged,
  because \<open>parsed_oem_info\<close> is absent and \<open>error\<close> is present, so \<open>unspsc_code\<close> and
  \<open>unspsc_family\<close> stay missing and the Result shows \<open>"NA"\<close> for them.
\<close>

theorem malformed_completion_skips:
  assumes "\<not> truthy (error (records E q ! 2))"
    and "\<not> no_valid_results (search_results (records E q ! 2))"
    and "generate_completion E (the (search_results (records E q ! 2))) = Inr (Some raw)"
    and "parser_parse E raw = Inl e"
  shows "parsed_oem_info (records E q ! 4) = None
         \<and> error (records E q ! 4) =
             Some (if raw = [] then ''No LLM response to parse.''
                   else ''Parsing error: '' @ e @ ''. Original LLM response: '' @ raw)
         \<and> vector_search_agent_node E (records E q ! 4) = records E q ! 4
         \<and> PartInfoState.unspsc_code (records E q ! 5) = Unset
         \<and> PartInfoState.unspsc_family (records E q ! 5) = Unset
         \<and> run E q =
             Inr \<lparr>OEMResult.original_query = q, oem = ''NA'', part_category = ''NA'',
                  unspsc_code = ''NA'', unspsc_family = ''NA''\<rparr>"
proof -
  have "vector_search_agent_node E (records E q ! 4) = records E q ! 5"
    by (rule records_nth(6) [symmetric])
  then show ?thesis
    using malformed_run [OF assms] by (simp add: unset_before_vector)
qed

theorem malformed_completion_skips_witness:
  "\<not> truthy (error (records env_malformed ''SKF 6205'' ! 2))
   \<and> \<not> no_valid_results (search_results (records env_malformed ''SKF 6205'' ! 2))
   \<and> generate_completion env_malformed (the (search_results (records env_malformed ''SKF 6205'' ! 2)))
       = Inr (Some ''oops'')
   \<and> parser_parse env_malformed ''oops'' = Inl ''Invalid json output''
   \<and> error (records env_malformed ''SKF 6205'' ! 4) =
       Some ''Parsing error: Invalid json output. Original LLM response: oops''
   \<and> run env_malformed ''SKF 6205'' =
       Inr \<lparr>OEMResult.original_query = ''SKF 6205'', oem = ''NA'', part_category = ''NA'',
            unspsc_code = ''NA'', unspsc_family = ''NA''\<rparr>"
  using malformed_scenario malformed_completion_skips [OF malformed_scenario] by simp

section \<open>An index without neighbours\<close>

lemma no_neighbour_run:
  assumes "get_vectordb_path E = Inr p" and "new_vector_agent E p = Inr u"
    and "category_of (records E q ! 4) \<noteq> ''na''"
    and "agent_search E (category_of (records E q ! 4)) = Inr res"
    and "first_metadata res = None"
  shows "records E q ! 5 =
           (records E q ! 4)\<lparr>PartInfoState.unspsc_code := Str ''na'',
                              PartInfoState.unspsc_family := Str ''na''\<rparr>
         \<and> (\<exists>r. run E q = Inr r \<and> OEMResult.unspsc_code r = ''na''
                 \<and> OEMResult.unspsc_family r = ''na'')"
proof -
  define s4 where "s4 = records E q ! 4"
  have "vector_search_agent_node E s4 = s4\<lparr>PartInfoState.unspsc_code := Str ''na'',
                              PartInfoState.unspsc_family := Str ''na''\<rparr>"
    unfolding s4_def by (rule vector_no_neighbour [OF assms])
  then have s5: "records E q ! 5 = s4\<lparr>PartInfoState.unspsc_code := Str ''na'',
                              PartInfoState.unspsc_family := Str ''na''\<rparr>"
    unfolding s4_def by (simp only: records_nth(6))
  then have "run E q = from_state (s4\<lparr>PartInfoState.unspsc_code := Str ''na'',
                              PartInfoState.unspsc_family := Str ''na''\<rparr>)"
    by (simp only: run_def records_nth(7))
  then have "\<exists>r. run E q = Inr r \<and> OEMResult.unspsc_code r = ''na''
                 \<and> OEMResult.unspsc_family r = ''na''"
    by (simp add: from_state_def get_default_def)
  with s5 show ?thesis
    unfolding s4_def by simp
qed

text \<open>Scenario A up to the parsing stage, whatever the index answers.\<close>

lemma scenario_classified:
  "records (scenario_env\<lparr>agent_search := f\<rparr>) ''SKF 6205'' ! 4 =
     (inputs ''SKF 6205'')\<lparr>translated_query := Some ''SKF 6205'',
        search_results := Some (formatted_results ''SKF 6205''
           (Some [\<lparr>title = Some ''SKF'', link = None, snippet = Some ''bearing''\<rparr>])),
        llm_response_json := Some ''{skf}'',
        parsed_oem_info := Some skf_output\<rparr>"
proof -
  let ?E = "scenario_env\<lparr>agent_search := f\<rparr>"
  let ?its = "Some [\<lparr>title = Some ''SKF'', link = None, snippet = Some ''bearing''\<rparr>]"
  let ?s2 = "(inputs ''SKF 6205'')\<lparr>translated_query := Some ''SKF 6205'',
         search_results := Some (formatted_results ''SKF 6205'' ?its)\<rparr>"
  have "translated_text ?E ''SKF 6205'' = Inr ''SKF 6205''"
    by (simp add: translated_text_def get_service_account_path_def truthy_def scenario_env_def)
  moreover have "search_request ?E (''SKF 6205'' @ '' manufacturer'') = Inr ?its"
    by (simp add: scenario_env_def)
  ultimately have r2: "records ?E ''SKF 6205'' ! 2 = ?s2"
    by (intro searched_record) simp_all
  have "generate_completion ?E (formatted_results ''SKF 6205'' ?its) = Inr (Some ''{skf}'')"
    by (simp add: scenario_env_def)
  with r2 have r3: "records ?E ''SKF 6205'' ! 3 = ?s2\<lparr>llm_response_json := Some ''{skf}''\<rparr>"
    using sample_results_valid
    by (intro synthesized_record [where found = "formatted_results ''SKF 6205'' ?its"])
       (simp_all add: inputs_def)
  have "parser_parse ?E ''{skf}'' = Inr skf_output"
    by (simp add: scenario_env_def)
  with r3 have "records ?E ''SKF 6205'' ! 4 =
      ?s2\<lparr>llm_response_json := Some ''{skf}'', parsed_oem_info := Some skf_output\<rparr>"
    by (intro classified_record [where raw = "''{skf}''"]) simp_all
  then show ?thesis by simp
qed

lemma scenario_category:
  "category_of (records (scenario_env\<lparr>agent_search := f\<rparr>) ''SKF 6205'' ! 4) = ''bearings''"
  unfolding scenario_classified by (simp add: category_of_def skf_output_def)

lemma scenario_index_ready:
  "get_vectordb_path (scenario_env\<lparr>agent_search := f\<rparr>) = Inr ''db''"
  "new_vector_agent (scenario_env\<lparr>agent_search := f\<rparr>) ''db'' = Inr ()"
  by (simp_all add: get_vectordb_path_def truthy_def scenario_env_def)

lemma zero_hits_category: "category_of (records env_zero_hits ''SKF 6205'' ! 4) = ''bearings''"
  unfolding env_zero_hits_def by (rule scenario_category)

lemma zero_hits_facts:
  "get_vectordb_path env_zero_hits = Inr ''db''"
  "new_vector_agent env_zero_hits ''db'' = Inr ()"
  "category_of (records env_zero_hits ''SKF 6205'' ! 4) \<noteq> ''na''"
  "agent_search env_zero_hits (category_of (records env_zero_hits ''SKF 6205'' ! 4)) = Inr (Some [[]])"
  "first_metadata (Some [[]]) = None"
  unfolding zero_hits_category
  by (simp_all add: get_vectordb_path_def truthy_def first_metadata_def env_zero_hits_def
                    scenario_env_def)

text \<open>
  Claim C6, as stated, fails: with the category \<open>"bearings"\<close> and an index that returns no
  neighbour, the Result holds the lower-case \<open>"na"\<close> the stage stored, not \<open>"NA"\<close>.
\<close>

theorem no_neighbour_counterexample:
  "category_of (records env_zero_hits ''SKF 6205'' ! 4) = ''bearings''
   \<and> agent_search env_zero_hits ''bearings'' = Inr (Some [[]])
   \<and> run env_zero_hits ''SKF 6205'' =
       Inr \<lparr>OEMResult.original_query = ''SKF 6205'', oem = ''skf'', part_category = ''bearings'',
            unspsc_code = ''na'', unspsc_family = ''na''\<rparr>
   \<and> ''na'' \<noteq> ''NA''"
proof -
  have "records env_zero_hits ''SKF 6205'' ! 5 =
           (records env_zero_hits ''SKF 6205'' ! 4)\<lparr>PartInfoState.unspsc_code := Str ''na'',
                              PartInfoState.unspsc_family := Str ''na''\<rparr>"
    using no_neighbour_run [OF zero_hits_facts] by simp
  then have "run env_zero_hits ''SKF 6205'' =
      from_state ((records env_zero_hits ''SKF 6205'' ! 4)\<lparr>PartInfoState.unspsc_code := Str ''na'',
                              PartInfoState.unspsc_family := Str ''na''\<rparr>)"
    by (simp only: run_def records_nth(7))
  then have "run env_zero_hits ''SKF 6205'' =
       Inr \<lparr>OEMResult.original_query = ''SKF 6205'', oem = ''skf'', part_category = ''bearings'',
            unspsc_code = ''na'', unspsc_family = ''na''\<rparr>"
    unfolding env_zero_hits_def scenario_classified
    by (simp add: from_state_def get_default_def skf_output_def inputs_def)
  moreover have "agent_search env_zero_hits ''bearings'' = Inr (Some [[]])"
    by (simp add: env_zero_hits_def)
  ultimately show ?thesis
    using zero_hits_category by simp
qed

text \<open>
  Claim C6, amended. In every run in which the classification stage asks the index for a
  category other than \<open>"na"\<close> and the index returns no neighbour, the stage stores \<open>"na"\<close>
  in \<open>unspsc_code\<close> and \<open>unspsc_family\<close>, and the Result carries both verbatim:
  \<open>unspsc_code = unspsc_family = "na"\<close>. The assembler's \<open>"NA"\<close> is for missing keys only.
\<close>

theorem no_neighbour_gives_lowercase_na:
  assumes "get_vectordb_path E = Inr p" and "new_vector_agent E p = Inr u"
    and "category_of (records E q ! 4) \<noteq> ''na''"
    and "agent_search E (category_of (records E q ! 4)) = Inr res"
    and "first_metadata res = None"
  shows "PartInfoState.unspsc_code (invoke E q) = Str ''na''
         \<and> PartInfoState.unspsc_family (invoke E q) = Str ''na''
         \<and> (\<exists>r. run E q = Inr r \<and> OEMResult.unspsc_code r = ''na''
                 \<and> OEMResult.unspsc_family r = ''na'')"
  using no_neighbour_run [OF assms] by (simp add: records_nth(7))

theorem no_neighbour_gives_lowercase_na_witness:
  "get_vectordb_path env_zero_hits = Inr ''db''
   \<and> new_vector_agent env_zero_hits ''db'' = Inr ()
   \<and> category_of (records env_zero_hits ''SKF 6205'' ! 4) \<noteq> ''na''
   \<and> agent_search env_zero_hits (category_of (records env_zero_hits ''SKF 6205'' ! 4)) = Inr (Some [[]])
   \<and> first_metadata (Some [[]]) = None
   \<and> PartInfoState.unspsc_code (invoke env_zero_hits ''SKF 6205'') = Str ''na''
   \<and> PartInfoState.unspsc_family (invoke env_zero_hits ''SKF 6205'') = Str ''na''
   \<and> (\<exists>r. run env_zero_hits ''SKF 6205'' = Inr r \<and> OEMResult.unspsc_code r = ''na''
           \<and> OEMResult.unspsc_family r = ''na'')"
  using zero_hits_facts no_neighbour_gives_lowercase_na [OF zero_hits_facts] by simp

section \<open>The canonical not-available answer\<close>

lemma na_output_json_text: "na_output_json \<noteq> []" "na_output_json \<noteq> ''{skf}''"
  by (simp_all add: na_output_json_def)

lemma no_results_synthesized:
  "records env_no_results ''SKF 6205'' ! 3 =
     (inputs ''SKF 6205'')\<lparr>translated_query := Some ''SKF 6205'',
        search_results := Some (formatted_results ''SKF 6205'' None),
        llm_response_json := Some na_output_json,
        parsed_oem_info := Some na_output,
        error := Some ''No valid search results for synthesis.''\<rparr>"
proof -
  let ?s2 = "(inputs ''SKF 6205'')\<lparr>translated_query := Some ''SKF 6205'',
         search_results := Some (formatted_results ''SKF 6205'' None)\<rparr>"
  have "translated_text env_no_results ''SKF 6205'' = Inr ''SKF 6205''"
    by (simp add: translated_text_def get_service_account_path_def truthy_def
                  env_no_results_def scenario_env_def)
  moreover have "search_request env_no_results (''SKF 6205'' @ '' manufacturer'') = Inr None"
    by (simp add: env_no_results_def)
  ultimately have r2: "records env_no_results ''SKF 6205'' ! 2 = ?s2"
    by (intro searched_record) simp_all
  have "synthesize_oem_info_node env_no_results ?s2 =
      ?s2\<lparr>llm_response_json := Some na_output_json, parsed_oem_info := Some na_output,
          error := Some ''No valid search results for synthesis.''\<rparr>"
    using no_results_text [of "''SKF 6205''"]
    by (intro synthesize_soft) (simp_all add: truthy_def inputs_def)
  with r2 show ?thesis
    by (simp only: records_nth(4))
qed

lemma no_results_parsed:
  "records env_no_results ''SKF 6205'' ! 4 = records env_no_results ''SKF 6205'' ! 3"
proof -
  have "parser_parse env_no_results na_output_json = Inr na_output"
    using na_output_json_text by (simp add: env_no_results_def scenario_env_def)
  then have "parse_llm_output_node env_no_results (records env_no_results ''SKF 6205'' ! 3) =
      (records env_no_results ''SKF 6205'' ! 3)\<lparr>parsed_oem_info := Some na_output\<rparr>"
    using na_output_json_text
    by (intro parse_accepts [where raw = na_output_json]) (simp_all add: no_results_synthesized)
  then show ?thesis
    unfolding records_nth(5) by (simp add: no_results_synthesized)
qed

text \<open>
  Claim C4. The classification stage compares the category with the lower-case \<open>"na"\<close>
  (lemma \<open>vector_na_branch\<close> is its degraded path), while the canonical answer of the
  synthesis stage's soft-failure path carries \<open>"NA"\<close>. So a Record with the canonical
  answer does not take the degraded path: when the search finds nothing, the stage asks
  the index for \<open>"NA"\<close> and stores the family of its nearest neighbour.
\<close>

theorem canonical_answer_reaches_index:
  "parsed_oem_info (records env_no_results ''SKF 6205'' ! 4) = Some na_output
   \<and> error (records env_no_results ''SKF 6205'' ! 4) = Some ''No valid search results for synthesis.''
   \<and> category_of (records env_no_results ''SKF 6205'' ! 4) = ''NA''
   \<and> agent_search env_no_results ''NA''
       = Inr (Some [[\<lparr>family = Str ''31'', family_title = Str ''bearings''\<rparr>]])
   \<and> vector_search_agent_node env_no_results (records env_no_results ''SKF 6205'' ! 4) =
       (records env_no_results ''SKF 6205'' ! 4)\<lparr>PartInfoState.unspsc_code := Str ''31'',
                                                PartInfoState.unspsc_family := Str ''bearings''\<rparr>
   \<and> run env_no_results ''SKF 6205'' =
       Inr \<lparr>OEMResult.original_query = ''SKF 6205'', oem = ''NA'', part_category = ''NA'',
            unspsc_code = ''31'', unspsc_family = ''bearings''\<rparr>"
proof -
  let ?s4 = "records env_no_results ''SKF 6205'' ! 4"
  let ?m = "\<lparr>family = Str ''31'', family_title = Str ''bearings''\<rparr>"
  have s4: "?s4 = (inputs ''SKF 6205'')\<lparr>translated_query := Some ''SKF 6205'',
        search_results := Some (formatted_results ''SKF 6205'' None),
        llm_response_json := Some na_output_json,
        parsed_oem_info := Some na_output,
        error := Some ''No valid search results for synthesis.''\<rparr>"
    by (simp only: no_results_parsed no_results_synthesized)
  have cat: "category_of ?s4 = ''NA''"
    unfolding s4 by (simp add: category_of_def na_output_def)
  have idx: "agent_search env_no_results ''NA'' = Inr (Some [[?m]])"
    by (simp add: env_no_results_def scenario_env_def)
  have "vector_search_agent_node env_no_results ?s4 =
      ?s4\<lparr>PartInfoState.unspsc_code := get_default (family ?m) ''na'',
          PartInfoState.unspsc_family := get_default (family_title ?m) ''na''\<rparr>"
    using cat idx
    by (intro vector_neighbour [where p = "''db''" and u = "()" and res = "Some [[?m]]"])
       (simp_all add: get_vectordb_path_def truthy_def first_metadata_def env_no_results_def
                      scenario_env_def)
  then have vec: "vector_search_agent_node env_no_results ?s4 =
      ?s4\<lparr>PartInfoState.unspsc_code := Str ''31'', PartInfoState.unspsc_family := Str ''bearings''\<rparr>"
    by (simp add: get_default_def)
  have "run env_no_results ''SKF 6205'' = from_state (vector_search_agent_node env_no_results ?s4)"
    by (simp only: run_def records_nth(6,7))
  then have "run env_no_results ''SKF 6205'' =
       Inr \<lparr>OEMResult.original_query = ''SKF 6205'', oem = ''NA'', part_category = ''NA'',
            unspsc_code = ''31'', unspsc_family = ''bearings''\<rparr>"
    unfolding vec unfolding s4
    by (simp add: from_state_def get_default_def na_output_def inputs_def)
  moreover have "parsed_oem_info ?s4 = Some na_output"
    "error ?s4 = Some ''No valid search results for synthesis.''"
    unfolding s4 by simp_all
  ultimately show ?thesis
    using cat idx vec by simp
qed

section \<open>Where a classification comes from\<close>

lemma source_without_classification: "parsed_oem_info s = None \<Longrightarrow> classification_source E s"
  by (simp add: classification_source_def)

lemma synthesize_source:
  "parsed_oem_info s = None \<Longrightarrow> classification_source E (synthesize_oem_info_node E s)"
  by (simp add: classification_source_def synthesize_oem_info_node_def split: sum.split)

lemma parse_source:
  "classification_source E s \<Longrightarrow> classification_source E (parse_llm_output_node E s)"
  by (auto simp: classification_source_def parse_llm_output_node_def truthy_def Let_def
           split: sum.splits option.splits)

lemma vector_source:
  "classification_source E s \<Longrightarrow> classification_source E (vector_search_agent_node E s)"
  by (auto simp: classification_source_def vector_frame split: option.splits)

text \<open>
  Claim C5, as stated, fails: when the search finds nothing, the Record that leaves the
  synthesis stage already has \<open>parsed_oem_info\<close> set, before the parsing stage has run.
\<close>

theorem classification_before_parsing_counterexample:
  "records env_no_results ''SKF 6205'' ! 3 =
     synthesize_oem_info_node env_no_results (records env_no_results ''SKF 6205'' ! 2)
   \<and> parsed_oem_info (records env_no_results ''SKF 6205'' ! 2) = None
   \<and> parsed_oem_info (records env_no_results ''SKF 6205'' ! 3) = Some na_output"
proof -
  have "parsed_oem_info (records env_no_results ''SKF 6205'' ! 2) = None"
    by (simp add: records_unfold search_frame translating_frame inputs_def)
  moreover have "parsed_oem_info (records env_no_results ''SKF 6205'' ! 3) = Some na_output"
    unfolding no_results_synthesized by simp
  ultimately show ?thesis
    using records_nth(4) [of env_no_results "''SKF 6205''"] by simp
qed

text \<open>
  Claim C5, amended. In every Record of a run, \<open>parsed_oem_info\<close>, when set, is either the
  canonical not-available answer that the synthesis stage's soft-failure path stores
  together with its JSON text in \<open>llm_response_json\<close>, or the value the parser returned for
  the Record's non-empty \<open>llm_response_json\<close>. It is an \<open>OEMOutput\<close>, so both of its fields
  are there.
\<close>

theorem classification_has_source:
  "\<forall>s \<in> set (records E q). classification_source E s"
proof -
  let ?s2 = "web_search_agent_node E (translating_agent_node E (inputs q))"
  have none: "parsed_oem_info (inputs q) = None"
    "parsed_oem_info (translating_agent_node E (inputs q)) = None"
    "parsed_oem_info ?s2 = None"
    by (simp_all add: search_frame translating_frame inputs_def)
  then have s3: "classification_source E (synthesize_oem_info_node E ?s2)"
    by (intro synthesize_source)
  then have s4: "classification_source E (parse_llm_output_node E (synthesize_oem_info_node E ?s2))"
    by (rule parse_source)
  then have "classification_source E
      (vector_search_agent_node E (parse_llm_output_node E (synthesize_oem_info_node E ?s2)))"
    by (rule vector_source)
  with none s3 s4 show ?thesis
    by (auto simp: records_unfold source_without_classification)
qed

theorem classification_has_source_witness:
  "records env_no_results ''SKF 6205'' ! 3 \<in> set (records env_no_results ''SKF 6205'')
   \<and> parsed_oem_info (records env_no_results ''SKF 6205'' ! 3) = Some na_output
   \<and> llm_response_json (records env_no_results ''SKF 6205'' ! 3) = Some na_output_json
   \<and> classification_source env_no_results (records env_no_results ''SKF 6205'' ! 3)"
proof -
  have "records env_no_results ''SKF 6205'' ! 3 \<in> set (records env_no_results ''SKF 6205'')"
    by (simp add: records_unfold)
  moreover have "parsed_oem_info (records env_no_results ''SKF 6205'' ! 3) = Some na_output"
    "llm_response_json (records env_no_results ''SKF 6205'' ! 3) = Some na_output_json"
    unfolding no_results_synthesized by simp_all
  ultimately show ?thesis
    using classification_has_source [of env_no_results "''SKF 6205''"] by blast
qed

section \<open>The taxonomy fields go together\<close>

lemma paired_when_unset:
  "PartInfoState.unspsc_code s = Unset \<Longrightarrow> PartInfoState.unspsc_family s = Unset \<Longrightarrow>
     taxonomy_paired E s"
  by (simp add: taxonomy_paired_def)

lemma vector_paired:
  "PartInfoState.unspsc_code s = Unset \<Longrightarrow> PartInfoState.unspsc_family s = Unset \<Longrightarrow>
     taxonomy_paired E (vector_search_agent_node E s)"
  using vector_slots [of E s] by (simp add: taxonomy_paired_def category_of_vector)

lemma title_missing_final:
  "invoke env_title_missing ''SKF 6205'' =
     (records env_title_missing ''SKF 6205'' ! 4)\<lparr>PartInfoState.unspsc_code := Str ''31'',
        PartInfoState.unspsc_family := Str ''na''\<rparr>"
proof -
  let ?m = "\<lparr>family = Str ''31'', family_title = Unset\<rparr>"
  let ?s4 = "records env_title_missing ''SKF 6205'' ! 4"
  have cat: "category_of ?s4 = ''bearings''"
    unfolding env_title_missing_def by (rule scenario_category)
  have ready: "get_vectordb_path env_title_missing = Inr ''db''"
    "new_vector_agent env_title_missing ''db'' = Inr ()"
    unfolding env_title_missing_def by (rule scenario_index_ready)+
  have ne: "category_of ?s4 \<noteq> ''na''"
    unfolding cat by simp
  have idx: "agent_search env_title_missing (category_of ?s4) = Inr (Some [[?m]])"
    by (simp add: env_title_missing_def)
  have top: "first_metadata (Some [[?m]]) = Some ?m"
    by (simp add: first_metadata_def)
  have "vector_search_agent_node env_title_missing ?s4 =
      ?s4\<lparr>PartInfoState.unspsc_code := get_default (family ?m) ''na'',
          PartInfoState.unspsc_family := get_default (family_title ?m) ''na''\<rparr>"
    by (rule vector_neighbour [OF ready ne idx top])
  then show ?thesis
    by (simp add: records_nth(6,7) get_default_def)
qed

text \<open>
  Claim C9, as stated, fails: when the nearest neighbour's metadata has a \<open>family\<close> and no
  \<open>family_title\<close>, the final Record holds the code \<open>"31"\<close> next to the family \<open>"na"\<close>.
\<close>

theorem taxonomy_pair_counterexample:
  "invoke env_title_missing ''SKF 6205'' \<in> set (records env_title_missing ''SKF 6205'')
   \<and> PartInfoState.unspsc_code (invoke env_title_missing ''SKF 6205'') = Str ''31''
   \<and> PartInfoState.unspsc_family (invoke env_title_missing ''SKF 6205'') = Str ''na''"
  using invoke_in_records [of env_title_missing "''SKF 6205''"]
  by (simp add: title_missing_final)

text \<open>
  Claim C9, amended. In every Record of a run, \<open>unspsc_code\<close> and \<open>unspsc_family\<close> are
  both missing, or both \<open>"na"\<close>, or the \<open>family\<close> and \<open>family_title\<close> of the nearest
  neighbour of the Record's category, where \<open>"na"\<close> stands in for a key that the
  neighbour's metadata lacks; one is never set without the other.
\<close>

theorem taxonomy_fields_paired:
  "\<forall>s \<in> set (records E q). taxonomy_paired E s"
proof -
  let ?s4 = "parse_llm_output_node E (synthesize_oem_info_node E
      (web_search_agent_node E (translating_agent_node E (inputs q))))"
  have "taxonomy_paired E (inputs q)"
    "taxonomy_paired E (translating_agent_node E (inputs q))"
    "taxonomy_paired E (web_search_agent_node E (translating_agent_node E (inputs q)))"
    "taxonomy_paired E (synthesize_oem_info_node E
      (web_search_agent_node E (translating_agent_node E (inputs q))))"
    "taxonomy_paired E ?s4"
    "taxonomy_paired E (vector_search_agent_node E ?s4)"
    by (simp_all add: paired_when_unset vector_paired parse_frame synthesize_frame search_frame
                      translating_frame inputs_def)
  then show ?thesis
    by (auto simp: records_unfold)
qed

theorem taxonomy_fields_paired_witness:
  "invoke env_title_missing ''SKF 6205'' \<in> set (records env_title_missing ''SKF 6205'')
   \<and> taxonomy_paired env_title_missing (invoke env_title_missing ''SKF 6205'')
   \<and> agent_search env_title_missing (category_of (invoke env_title_missing ''SKF 6205''))
       = Inr (Some [[\<lparr>family = Str ''31'', family_title = Unset\<rparr>]])"
proof -
  have "agent_search env_title_missing (category_of (invoke env_title_missing ''SKF 6205''))
       = Inr (Some [[\<lparr>family = Str ''31'', family_title = Unset\<rparr>]])"
    by (simp add: env_title_missing_def)
  then show ?thesis
    using taxonomy_fields_paired [of env_title_missing "''SKF 6205''"]
      invoke_in_records [of env_title_missing "''SKF 6205''"]
    by blast
qed

section \<open>The output assembler and the runner\<close>

lemma int_family_final:
  "invoke env_int_family ''SKF 6205'' =
     (records env_int_family ''SKF 6205'' ! 4)\<lparr>PartInfoState.unspsc_code := PyInt 31,
        PartInfoState.unspsc_family := Str ''bearings''\<rparr>"
proof -
  let ?m = "\<lparr>family = PyInt 31, family_title = Str ''bearings''\<rparr>"
  let ?s4 = "records env_int_family ''SKF 6205'' ! 4"
  have cat: "category_of ?s4 = ''bearings''"
    unfolding env_int_family_def by (rule scenario_category)
  have ready: "get_vectordb_path env_int_family = Inr ''db''"
    "new_vector_agent env_int_family ''db'' = Inr ()"
    unfolding env_int_family_def by (rule scenario_index_ready)+
  have ne: "category_of ?s4 \<noteq> ''na''"
    unfolding cat by simp
  have idx: "agent_search env_int_family (category_of ?s4) = Inr (Some [[?m]])"
    by (simp add: env_int_family_def)
  have top: "first_metadata (Some [[?m]]) = Some ?m"
    by (simp add: first_metadata_def)
  have "vector_search_agent_node env_int_family ?s4 =
      ?s4\<lparr>PartInfoState.unspsc_code := get_default (family ?m) ''na'',
          PartInfoState.unspsc_family := get_default (family_title ?m) ''na''\<rparr>"
    by (rule vector_neighbour [OF ready ne idx top])
  then show ?thesis
    by (simp add: records_nth(6,7) get_default_def)
qed

lemma int_family_raises: "run env_int_family ''SKF 6205'' = Inl ValidationError"
  unfolding run_def int_family_final
  by (rule from_state_refuses) (simp add: holds_text_def)



text \<open>
  Claim C1. \<open>from_state\<close> returns a Result on the Records whose taxonomy keys are missing
  or hold strings (lemmas \<open>from_state_returns\<close>, \<open>from_state_returns_iff\<close>), but it is not
  total. The classification stage stores the neighbour's \<open>family\<close> as the index holds it;
  when that is the integer 31, the final Record holds an integer under \<open>unspsc_code\<close>, the
  validation of \<open>OEMResult\<close> refuses it, and \<open>run\<close> raises. A Record holding \<open>None\<close> under a
  taxonomy key is refused too, since \<open>state.get(k, "NA")\<close> returns the \<open>None\<close>.
\<close>

theorem assembler_raises_on_non_string:
  "agent_search env_int_family ''bearings''
     = Inr (Some [[\<lparr>family = PyInt 31, family_title = Str ''bearings''\<rparr>]])
   \<and> PartInfoState.unspsc_code (invoke env_int_family ''SKF 6205'') = PyInt 31
   \<and> PartInfoState.unspsc_family (invoke env_int_family ''SKF 6205'') = Str ''bearings''
   \<and> from_state (invoke env_int_family ''SKF 6205'') = Inl ValidationError
   \<and> run env_int_family ''SKF 6205'' = Inl ValidationError
   \<and> from_state ((inputs ''SKF 6205'')\<lparr>PartInfoState.unspsc_code := PyNone\<rparr>)
       = Inl ValidationError"
proof -
  have "agent_search env_int_family ''bearings''
     = Inr (Some [[\<lparr>family = PyInt 31, family_title = Str ''bearings''\<rparr>]])"
    by (simp add: env_int_family_def)
  moreover have "from_state ((inputs ''SKF 6205'')\<lparr>PartInfoState.unspsc_code := PyNone\<rparr>)
       = Inl ValidationError"
    by (rule from_state_refuses) (simp add: holds_text_def)
  moreover have "from_state (invoke env_int_family ''SKF 6205'') = Inl ValidationError"
    using int_family_raises by (simp add: run_def)
  ultimately show ?thesis
    using int_family_raises by (simp add: int_family_final)
qed




section \<open>When the parsing stage leaves the Record unchanged\<close>

lemma parse_unchanged_iff:
  "parse_llm_output_node E s = s \<longleftrightarrow>
     (truthy (error s) \<and> llm_response_json s = None)
     \<or> (\<not> truthy (llm_response_json s) \<and> error s = Some ''No LLM response to parse.'')
     \<or> (truthy (llm_response_json s)
        \<and> (case parser_parse E (the (llm_response_json s)) of
              Inr info \<Rightarrow> parsed_oem_info s = Some info
            | Inl e \<Rightarrow> error s = Some (''Parsing error: '' @ e @ ''. Original LLM response: ''
                                        @ the (llm_response_json s))))"
  by (cases s)
     (auto simp: parse_llm_output_node_def truthy_def Let_def split: sum.splits option.splits)

text \<open>
  Claim C7, as stated, fails: the Record that leaves the synthesis stage's soft-failure
  path has an error and a synthesis output, so the parsing stage does not skip; it parses
  the canonical text and writes the classification that is already there, and the Record
  comes back unchanged.
\<close>

theorem parse_unchanged_counterexample:
  "truthy (error (records env_no_results ''SKF 6205'' ! 3))
   \<and> llm_response_json (records env_no_results ''SKF 6205'' ! 3) = Some na_output_json
   \<and> parse_llm_output_node env_no_results (records env_no_results ''SKF 6205'' ! 3)
       = records env_no_results ''SKF 6205'' ! 3"
proof -
  have "parse_llm_output_node env_no_results (records env_no_results ''SKF 6205'' ! 3)
       = records env_no_results ''SKF 6205'' ! 3"
    using no_results_parsed by (simp only: records_nth(5))
  moreover have "truthy (error (records env_no_results ''SKF 6205'' ! 3))"
    "llm_response_json (records env_no_results ''SKF 6205'' ! 3) = Some na_output_json"
    unfolding no_results_synthesized by (simp_all add: truthy_def)
  ultimately show ?thesis by simp
qed

text \<open>
  Claim C7, amended. The parsing stage returns the Record unchanged whenever \<open>error\<close> is
  present (the source's test \<open>state.get("error")\<close>) and \<open>llm_response_json\<close> is \<open>None\<close>; that
  is its only skip. In every other case it writes. With nothing to parse it writes the
  no-response error. With a non-empty text the parser accepts, it sets \<open>parsed_oem_info\<close>
  and leaves \<open>error\<close> as it was, soft error included. With a non-empty text the parser
  refuses, it overwrites \<open>error\<close> with the parsing-failure message, which contains the raw
  text. So the Record comes back unchanged exactly when the stage skips or the value it
  writes is the one the Record already holds.
\<close>

theorem parse_stage_contract:
  "(truthy (error s) \<and> llm_response_json s = None \<longrightarrow> parse_llm_output_node E s = s)
   \<and> (\<not> (truthy (error s) \<and> llm_response_json s = None) \<and> \<not> truthy (llm_response_json s) \<longrightarrow>
        parse_llm_output_node E s = s\<lparr>error := Some ''No LLM response to parse.''\<rparr>)
   \<and> (llm_response_json s = Some raw \<and> raw \<noteq> [] \<and> parser_parse E raw = Inr info \<longrightarrow>
        parse_llm_output_node E s = s\<lparr>parsed_oem_info := Some info\<rparr>
        \<and> parsed_oem_info (parse_llm_output_node E s) = Some info
        \<and> error (parse_llm_output_node E s) = error s)
   \<and> (llm_response_json s = Some raw \<and> raw \<noteq> [] \<and> parser_parse E raw = Inl e \<longrightarrow>
        parse_llm_output_node E s =
          s\<lparr>error := Some (''Parsing error: '' @ e @ ''. Original LLM response: '' @ raw)\<rparr>
        \<and> str_contains raw (the (error (parse_llm_output_node E s))))
   \<and> (parse_llm_output_node E s = s \<longleftrightarrow>
        (truthy (error s) \<and> llm_response_json s = None)
        \<or> (\<not> truthy (llm_response_json s) \<and> error s = Some ''No LLM response to parse.'')
        \<or> (truthy (llm_response_json s)
           \<and> (case parser_parse E (the (llm_response_json s)) of
                 Inr info' \<Rightarrow> parsed_oem_info s = Some info'
               | Inl e' \<Rightarrow>
                   error s = Some (''Parsing error: '' @ e' @ ''. Original LLM response: ''
                                   @ the (llm_response_json s)))))"
proof -
  have "str_contains raw (''Parsing error: '' @ e @ ''. Original LLM response: '' @ raw)"
    using str_contains_suffix [of raw "''Parsing error: '' @ e @ ''. Original LLM response: ''"]
    by simp
  then have branches:
    "(truthy (error s) \<and> llm_response_json s = None \<longrightarrow> parse_llm_output_node E s = s)
     \<and> (\<not> (truthy (error s) \<and> llm_response_json s = None) \<and> \<not> truthy (llm_response_json s) \<longrightarrow>
        parse_llm_output_node E s = s\<lparr>error := Some ''No LLM response to parse.''\<rparr>)
     \<and> (llm_response_json s = Some raw \<and> raw \<noteq> [] \<and> parser_parse E raw = Inr info \<longrightarrow>
        parse_llm_output_node E s = s\<lparr>parsed_oem_info := Some info\<rparr>
        \<and> parsed_oem_info (parse_llm_output_node E s) = Some info
        \<and> error (parse_llm_output_node E s) = error s)
     \<and> (llm_response_json s = Some raw \<and> raw \<noteq> [] \<and> parser_parse E raw = Inl e \<longrightarrow>
        parse_llm_output_node E s =
          s\<lparr>error := Some (''Parsing error: '' @ e @ ''. Original LLM response: '' @ raw)\<rparr>
        \<and> str_contains raw (the (error (parse_llm_output_node E s))))"
    by (simp add: parse_skips parse_nothing parse_accepts parse_rejects)
  show ?thesis
    using branches parse_unchanged_iff [of E s] by blast
qed

theorem parse_stage_contract_witness:
  "parse_llm_output_node scenario_env ((inputs ''x'')\<lparr>error := Some ''Translation error: down''\<rparr>)
     = (inputs ''x'')\<lparr>error := Some ''Translation error: down''\<rparr>
   \<and> parse_llm_output_node scenario_env (inputs ''x'')
     = (inputs ''x'')\<lparr>error := Some ''No LLM response to parse.''\<rparr>
   \<and> parse_llm_output_node scenario_env
       ((inputs ''x'')\<lparr>llm_response_json := Some na_output_json,
                       error := Some ''No valid search results for synthesis.''\<rparr>)
     = (inputs ''x'')\<lparr>llm_response_json := Some na_output_json,
                      parsed_oem_info := Some na_output,
                      error := Some ''No valid search results for synthesis.''\<rparr>
   \<and> parse_llm_output_node scenario_env ((inputs ''x'')\<lparr>llm_response_json := Some ''oops''\<rparr>)
     = (inputs ''x'')\<lparr>llm_response_json := Some ''oops'',
          error := Some ''Parsing error: Invalid json output. Original LLM response: oops''\<rparr>"
proof -
  have na: "na_output_json \<noteq> []" "na_output_json \<noteq> ''{skf}''"
    by (simp_all add: na_output_json_def)
  have p1: "parser_parse scenario_env na_output_json = Inr na_output"
    using na by (simp add: scenario_env_def)
  have p2: "parser_parse scenario_env ''oops'' = Inl ''Invalid json output''"
    by (simp add: scenario_env_def na_output_json_def)
  show ?thesis
    using parse_stage_contract [of "(inputs ''x'')\<lparr>error := Some ''Translation error: down''\<rparr>" scenario_env]
      parse_stage_contract [of "inputs ''x''" scenario_env]
      parse_stage_contract [of "(inputs ''x'')\<lparr>llm_response_json := Some na_output_json,
                       error := Some ''No valid search results for synthesis.''\<rparr>" scenario_env
                       na_output_json na_output]
      parse_stage_contract [of "(inputs ''x'')\<lparr>llm_response_json := Some ''oops''\<rparr>" scenario_env
                       "''oops''" _ "''Invalid json output''"]
      na p1 p2
    by (simp add: truthy_def inputs_def)
qed

end
